theory Spec2Isabelle
  imports Main "HOL-Library.Word" "HOL-Library.Multiset" "HOL-Library.Sublist"
begin

section \<open>JavaScript values used by the todo application\<close>

subsection \<open>Strings and numbers\<close>

text \<open>
  A JavaScript string is a sequence of UTF-16 code units. String literals of the source
  are ASCII and are written \<open>js ''...''\<close>.

  Numbers of the source that hold time values, minute counts and array indices are
  integers; they are modelled as \<open>int\<close>, which is exact for magnitudes below \<open>2 ^ 53\<close>.
\<close>

type_synonym jsstring = "16 word list"

definition js :: "string \<Rightarrow> jsstring" where
  "js s = map of_char s"

definition digit :: "nat \<Rightarrow> 16 word" where
  "digit d = of_nat (48 + d)"

fun nat_digits :: "nat \<Rightarrow> jsstring" where
  "nat_digits n = (if n < 10 then [digit n] else nat_digits (n div 10) @ [digit (n mod 10)])"

declare nat_digits.simps [simp del]

text \<open>\<open>Number_toString\<close> is what a template literal \<^verbatim>\<open>`${n}`\<close> produces for an integer \<open>n\<close>.\<close>

definition Number_toString :: "int \<Rightarrow> jsstring" where
  "Number_toString n = (if n < 0 then js ''-'' @ nat_digits (nat (- n)) else nat_digits (nat n))"

subsection \<open>Dates\<close>

text \<open>
  A \<^verbatim>\<open>Date\<close> object holds a time value: an integral number of milliseconds since the
  epoch, or \<^verbatim>\<open>NaN\<close> (an Invalid Date). \<open>TimeClip\<close> is the range check every \<^verbatim>\<open>Date\<close>
  setter and constructor applies.
\<close>

datatype date = Date int | InvalidDate

definition TimeClip :: "int \<Rightarrow> date" where
  "TimeClip t = (if \<bar>t\<bar> \<le> 8640000000000000 then Date t else InvalidDate)"

definition msPerDay :: int where
  "msPerDay = 86400000"

definition Day :: "int \<Rightarrow> int" where
  "Day t = t div msPerDay"

definition TimeWithinDay :: "int \<Rightarrow> int" where
  "TimeWithinDay t = t mod msPerDay"

definition MakeTime :: "int \<Rightarrow> int \<Rightarrow> int \<Rightarrow> int \<Rightarrow> int" where
  "MakeTime hour minute sec ms = hour * 3600000 + minute * 60000 + sec * 1000 + ms"

definition MakeDate :: "int \<Rightarrow> int \<Rightarrow> int" where
  "MakeDate day time = day * msPerDay + time"

text \<open>
  The local time zone belongs to the host. \<open>tza t True\<close> is the offset of local time from
  UTC at the UTC instant \<open>t\<close>, \<open>tza t False\<close> the offset at the local time \<open>t\<close>
  (\<^verbatim>\<open>LocalTZA(t, isUTC)\<close> of ECMAScript).
\<close>

type_synonym timezone = "int \<Rightarrow> bool \<Rightarrow> int"

definition LocalTime :: "timezone \<Rightarrow> int \<Rightarrow> int" where
  "LocalTime tza t = t + tza t True"

definition UTC :: "timezone \<Rightarrow> int \<Rightarrow> int" where
  "UTC tza t = t - tza t False"

text \<open>\<^verbatim>\<open>Date.prototype.setHours(hour, min, sec, ms)\<close>, returning the date it leaves in the object.\<close>

definition setHours :: "timezone \<Rightarrow> int \<Rightarrow> int \<Rightarrow> int \<Rightarrow> int \<Rightarrow> date \<Rightarrow> date" where
  "setHours tza hour minute sec ms d =
     (case d of
        InvalidDate \<Rightarrow> InvalidDate
      | Date t \<Rightarrow>
          (let lt = LocalTime tza t;
               dt = MakeDate (Day lt) (MakeTime hour minute sec ms)
           in TimeClip (UTC tza dt)))"

section \<open>Time utility (src/utils/index.ts)\<close>

record TimeRemaining =
  days :: int
  hours :: int
  minutes :: int
  isOverdue :: bool
  totalMinutes :: int

text \<open>
  \<^verbatim>\<open>calculateTimeRemaining(dueDate)\<close>. The clock reading \<^verbatim>\<open>new Date()\<close> is the argument
  \<open>now\<close>, always a valid time value. When the end of the due day is an Invalid Date every
  number of the source's result is \<^verbatim>\<open>NaN\<close>; that result is \<open>None\<close> here.
  \<^verbatim>\<open>Math.floor\<close> of a quotient of non-negative integers is \<open>div\<close>, and \<^verbatim>\<open>%\<close> on them is \<open>mod\<close>.
\<close>

definition calculateTimeRemaining :: "timezone \<Rightarrow> int \<Rightarrow> date \<Rightarrow> TimeRemaining option" where
  "calculateTimeRemaining tza now dueDate =
     (case setHours tza 23 59 59 999 dueDate of
        InvalidDate \<Rightarrow> None
      | Date dueDateEndOfDay \<Rightarrow>
          (let diffMs = dueDateEndOfDay - now;
               isOverdue = (diffMs < 0);
               absDiffMs = \<bar>diffMs\<bar>;
               totalMinutes = absDiffMs div (1000 * 60);
               days = totalMinutes div (24 * 60);
               hours = (totalMinutes mod (24 * 60)) div 60;
               minutes = totalMinutes mod 60
           in Some \<lparr>days = days, hours = hours, minutes = minutes,
                    isOverdue = isOverdue, totalMinutes = totalMinutes\<rparr>))"

definition formatTimeRemaining :: "TimeRemaining \<Rightarrow> jsstring" where
  "formatTimeRemaining timeRemaining =
     (if isOverdue timeRemaining then
        (if days timeRemaining > 0 then
           Number_toString (days timeRemaining) @ js ''d overdue''
         else if hours timeRemaining > 0 then
           Number_toString (hours timeRemaining) @ js ''h '' @
           Number_toString (minutes timeRemaining) @ js ''m overdue''
         else
           Number_toString (minutes timeRemaining) @ js ''m overdue'')
      else
        (if days timeRemaining > 0 then
           Number_toString (days timeRemaining) @ js ''d '' @
           Number_toString (hours timeRemaining) @ js ''h remaining''
         else if hours timeRemaining > 0 then
           Number_toString (hours timeRemaining) @ js ''h '' @
           Number_toString (minutes timeRemaining) @ js ''m remaining''
         else
           Number_toString (minutes timeRemaining) @ js ''m remaining''))"

text \<open>
  The formatting rule in the words of the specification, for comparison: three tiers
  \<open>{d}d\<close>, \<open>{h}h {m}m\<close>, \<open>{m}m\<close>, the first whose leading unit is positive, followed by
  \<open>overdue\<close>, and the same three tiers followed by \<open>remaining\<close> when not overdue.
\<close>

definition format_spec :: "TimeRemaining \<Rightarrow> jsstring" where
  "format_spec r =
     (let tier =
            (if days r > 0 then Number_toString (days r) @ js ''d''
             else if hours r > 0 then
               Number_toString (hours r) @ js ''h '' @ Number_toString (minutes r) @ js ''m''
             else Number_toString (minutes r) @ js ''m'')
      in tier @ (if isOverdue r then js '' overdue'' else js '' remaining''))"

section \<open>Todo store (src/hooks/useTodos.ts)\<close>

subsection \<open>The record (src/types/index.ts)\<close>

text \<open>
  The interface \<^verbatim>\<open>Todo\<close>. The fields \<^verbatim>\<open>id\<close> and \<^verbatim>\<open>text\<close> carry a prime because
  the plain names are taken. An optional field that is \<^verbatim>\<open>undefined\<close> is \<open>None\<close>.
\<close>

record Todo =
  id' :: jsstring
  text' :: jsstring
  completed :: bool
  createdAt :: date
  dueDate :: "date option"
  category :: "jsstring option"

subsection \<open>String trimming\<close>

text \<open>
  \<^verbatim>\<open>String.prototype.trim\<close> strips the white space and line terminator code units of
  ECMAScript from both ends.
\<close>

definition isWhiteSpace :: "16 word \<Rightarrow> bool" where
  "isWhiteSpace c \<longleftrightarrow>
     c = 0x0009 \<or> c = 0x000A \<or> c = 0x000B \<or> c = 0x000C \<or> c = 0x000D \<or> c = 0x0020 \<or>
     c = 0x00A0 \<or> c = 0x1680 \<or> (0x2000 \<le> c \<and> c \<le> 0x200A) \<or> c = 0x2028 \<or> c = 0x2029 \<or>
     c = 0x202F \<or> c = 0x205F \<or> c = 0x3000 \<or> c = 0xFEFF"

definition trim :: "jsstring \<Rightarrow> jsstring" where
  "trim s = rev (dropWhile isWhiteSpace (rev (dropWhile isWhiteSpace s)))"

subsection \<open>State updates\<close>

text \<open>
  Every mutation of the hook is \<^verbatim>\<open>setTodos(prev => ...)\<close>; the functions below are those
  updaters, from the previous collection to the next one. \<^verbatim>\<open>addTodo\<close> calls
  \<^verbatim>\<open>generateId()\<close> (a random suffix and the clock) and \<^verbatim>\<open>new Date()\<close> before it updates;
  what the two calls returned are the arguments \<open>generatedId\<close> and \<open>now\<close>; \<open>due\<close> and
  \<open>cat\<close> are the parameters \<^verbatim>\<open>dueDate\<close> and \<^verbatim>\<open>category\<close>.
\<close>

definition addTodo ::
  "jsstring \<Rightarrow> int \<Rightarrow> jsstring \<Rightarrow> date option \<Rightarrow> jsstring option \<Rightarrow> Todo list \<Rightarrow> Todo list" where
  "addTodo generatedId now text due cat prev =
     (let newTodo = \<lparr>id' = generatedId, text' = text, completed = False,
                      createdAt = Date now, dueDate = due, category = cat\<rparr>
      in newTodo # prev)"

definition toggleTodo :: "jsstring \<Rightarrow> Todo list \<Rightarrow> Todo list" where
  "toggleTodo i prev =
     map (\<lambda>todo. if id' todo = i then todo\<lparr>completed := \<not> completed todo\<rparr> else todo) prev"

definition deleteTodo :: "jsstring \<Rightarrow> Todo list \<Rightarrow> Todo list" where
  "deleteTodo i prev = filter (\<lambda>todo. id' todo \<noteq> i) prev"

text \<open>
  \<^verbatim>\<open>Array.prototype.splice(start, deleteCount, ...items)\<close> on an array \<open>xs\<close>: a negative
  \<open>start\<close> counts from the end, both ends are clamped, and the delete count is clamped to
  what is left. The result is the array of removed elements and the array as it is left.
\<close>

definition Array_splice :: "int \<Rightarrow> int \<Rightarrow> 'a list \<Rightarrow> 'a list \<Rightarrow> 'a list \<times> 'a list" where
  "Array_splice start deleteCount items xs =
     (let len = int (length xs);
          actualStart = (if start < 0 then max (len + start) 0 else min start len);
          actualDeleteCount = min (max deleteCount 0) (len - actualStart)
      in (take (nat actualDeleteCount) (drop (nat actualStart) xs),
          take (nat actualStart) xs @ items @ drop (nat (actualStart + actualDeleteCount)) xs))"

text \<open>
  \<^verbatim>\<open>reorderTodos\<close>. The destructuring \<^verbatim>\<open>const [removed] = ...\<close> takes the first removed
  element, or \<^verbatim>\<open>undefined\<close> when nothing was removed, and the second splice inserts that
  value whatever it is. So the array that is returned holds records or \<^verbatim>\<open>undefined\<close>:
  its elements are \<open>Todo option\<close>, with \<open>None\<close> for \<^verbatim>\<open>undefined\<close>.
\<close>

definition reorderTodos :: "int \<Rightarrow> int \<Rightarrow> Todo list \<Rightarrow> Todo option list" where
  "reorderTodos startIndex endIndex prev =
     (let result = map Some prev;
          (removedItems, result1) = Array_splice startIndex 1 [] result;
          removed = (case removedItems of [] \<Rightarrow> None | x # _ \<Rightarrow> x);
          (_, result2) = Array_splice endIndex 0 [removed] result1
      in result2)"

subsection \<open>The render after an update\<close>

text \<open>
  The array an updater returns becomes the state, and the hook renders again. Its body
  then computes \<^verbatim>\<open>todos.filter(todo => todo.completed).length\<close> and \<^verbatim>\<open>todos.length\<close>.
  The callback of \<^verbatim>\<open>filter\<close> reads a property of each entry in turn, so an entry that
  is \<^verbatim>\<open>undefined\<close> makes it throw a \<^verbatim>\<open>TypeError\<close>, which nothing catches. Only
  \<^verbatim>\<open>reorderTodos\<close> can put such an entry into the state.
\<close>

datatype render_error = TypeError_in_render

fun completedCount :: "Todo option list \<Rightarrow> render_error + nat" where
  "completedCount [] = Inr 0"
| "completedCount (None # rest) = Inl TypeError_in_render"
| "completedCount (Some todo # rest) =
     (case completedCount rest of
        Inl e \<Rightarrow> Inl e
      | Inr n \<Rightarrow> Inr (if completed todo then Suc n else n))"

definition totalCount :: "Todo option list \<Rightarrow> nat" where
  "totalCount todos = length todos"

definition render_counts :: "Todo option list \<Rightarrow> render_error + nat \<times> nat" where
  "render_counts todos =
     (case completedCount todos of
        Inl e \<Rightarrow> Inl e
      | Inr n \<Rightarrow> Inr (n, totalCount todos))"

text \<open>
  A call of \<^verbatim>\<open>reorderTodos\<close> as the application goes through it: the update, then the
  render of the new state. The result is the exception of that render, or the new state
  with the two counts.
\<close>

definition reorder_and_render ::
  "int \<Rightarrow> int \<Rightarrow> Todo list \<Rightarrow> render_error + Todo option list \<times> nat \<times> nat" where
  "reorder_and_render startIndex endIndex prev =
     (let next = reorderTodos startIndex endIndex prev in
      case render_counts next of
        Inl e \<Rightarrow> Inl e
      | Inr counts \<Rightarrow> Inr (next, counts))"

subsection \<open>Records of the test suite\<close>

text \<open>
  Two records of \<^verbatim>\<open>useTodos.test.ts\<close>, created at \<^verbatim>\<open>2025-01-01T12:00:00.000Z\<close>.
\<close>

definition mockTodo1 :: Todo where
  "mockTodo1 = \<lparr>id' = js ''test-id-1'', text' = js ''Todo 1'', completed = False,
                 createdAt = Date 1735732800000, dueDate = None, category = None\<rparr>"

definition mockTodo2 :: Todo where
  "mockTodo2 = \<lparr>id' = js ''test-id-2'', text' = js ''Todo 2'', completed = False,
                 createdAt = Date 1735732800000, dueDate = None, category = None\<rparr>"

section \<open>Input form (src/components/TodoInput.tsx)\<close>

text \<open>
  \<^verbatim>\<open>String.prototype.split\<close> with a separator of one code unit, and \<^verbatim>\<open>parseInt\<close> with
  radix 10: leading white space is skipped, a sign is read, then the longest run of
  decimal digits; without a digit the result is \<^verbatim>\<open>NaN\<close>, here \<open>None\<close>.
\<close>

fun split_on :: "16 word \<Rightarrow> jsstring \<Rightarrow> jsstring list" where
  "split_on sep [] = [[]]"
| "split_on sep (c # cs) =
     (if c = sep then [] # split_on sep cs
      else (case split_on sep cs of
              [] \<Rightarrow> [[c]]
            | part # parts \<Rightarrow> (c # part) # parts))"

definition isDigit :: "16 word \<Rightarrow> bool" where
  "isDigit c \<longleftrightarrow> 0x30 \<le> c \<and> c \<le> 0x39"

definition parseInt10 :: "jsstring \<Rightarrow> int option" where
  "parseInt10 str =
     (let s = dropWhile isWhiteSpace str;
          negative = (s \<noteq> [] \<and> hd s = 0x2D);
          unsigned = (if s \<noteq> [] \<and> (hd s = 0x2D \<or> hd s = 0x2B) then tl s else s);
          ds = takeWhile isDigit unsigned;
          n = foldl (\<lambda>acc d. acc * 10 + (int (unat d) - 48)) 0 ds
      in if ds = [] then None else Some (if negative then - n else n))"

text \<open>The three state variables of the form: \<^verbatim>\<open>text\<close>, \<^verbatim>\<open>dueDate\<close> and \<^verbatim>\<open>category\<close>.\<close>

record form =
  text_input :: jsstring
  dueDate_input :: jsstring
  category_input :: jsstring

text \<open>
  \<^verbatim>\<open>handleSubmit\<close>, on the form and the state the callback \<^verbatim>\<open>onAdd\<close> acts on. The
  constructor \<^verbatim>\<open>new Date(year, month - 1, day)\<close> belongs to the host: \<open>Date_ymd\<close> is
  given the year, the month index and the day, each \<open>None\<close> when it is \<^verbatim>\<open>NaN\<close> (also
  what arithmetic makes of a part that is missing). The application passes the hook's
  \<^verbatim>\<open>addTodo\<close> as \<^verbatim>\<open>onAdd\<close>.
\<close>

definition handleSubmit ::
  "(int option \<Rightarrow> int option \<Rightarrow> int option \<Rightarrow> date) \<Rightarrow>
   (jsstring \<Rightarrow> date option \<Rightarrow> jsstring option \<Rightarrow> 's \<Rightarrow> 's) \<Rightarrow> form \<times> 's \<Rightarrow> form \<times> 's" where
  "handleSubmit Date_ymd onAdd fs =
     (let f = fst fs; st = snd fs;
          trimmedText = trim (text_input f)
      in if trimmedText \<noteq> [] then
           (let parsedDueDate =
                  (if dueDate_input f \<noteq> [] then
                     (let nums = map parseInt10 (split_on 0x2D (dueDate_input f));
                          year = (if 0 < length nums then nums ! 0 else None);
                          month = (if 1 < length nums then nums ! 1 else None);
                          day = (if 2 < length nums then nums ! 2 else None)
                      in Some (Date_ymd year (map_option (\<lambda>m. m - 1) month) day))
                   else None);
                trimmedCategory =
                  (if trim (category_input f) \<noteq> [] then Some (trim (category_input f)) else None)
            in (\<lparr>text_input = [], dueDate_input = [], category_input = []\<rparr>,
                onAdd trimmedText parsedDueDate trimmedCategory st))
         else (f, st))"

section \<open>Persistence (src/hooks/useTodos.ts, the two effects)\<close>

subsection \<open>What the host provides\<close>

text \<open>
  \<^verbatim>\<open>JSON.parse\<close> returns a JSON value or throws a \<^verbatim>\<open>SyntaxError\<close>. The pairs of an object
  are its own properties, each name once, in the order in which they are enumerated.
  Numbers of a JSON text are taken to be integers.
\<close>

datatype json =
    JNull
  | JBool bool
  | JNum int
  | JStr jsstring
  | JArr "json list"
  | JObj "(jsstring \<times> json) list"

datatype jserror = SyntaxError | TypeError | QuotaExceededError

text \<open>
  The host functions that the hook calls and that are no code of this repository:
  \<^verbatim>\<open>JSON.parse\<close> on a text (\<open>None\<close> when it throws its \<^verbatim>\<open>SyntaxError\<close>), the text
  \<^verbatim>\<open>JSON.stringify\<close> writes for a JSON value, \<^verbatim>\<open>Date.parse\<close>,
  \<^verbatim>\<open>Date.prototype.toISOString\<close> on a valid time value, and whether
  \<^verbatim>\<open>localStorage.setItem\<close> accepts a value or throws for lack of quota.
\<close>

record runtime =
  JSON_parse :: "jsstring \<Rightarrow> json option"
  JSON_text :: "json \<Rightarrow> jsstring"
  Date_parse :: "jsstring \<Rightarrow> date"
  Date_toISOString :: "int \<Rightarrow> jsstring"
  storage_accepts :: "jsstring \<Rightarrow> bool"

text \<open>
  \<^verbatim>\<open>ToString\<close> of a JSON value, as \<^verbatim>\<open>ToPrimitive\<close> needs it for an array or an object.
  An array is joined with commas, \<^verbatim>\<open>null\<close> elements giving the empty string. An object
  gives \<^verbatim>\<open>[object Object]\<close>, unless it has an own property \<^verbatim>\<open>toString\<close>: that property
  is no function, the inherited \<^verbatim>\<open>valueOf\<close> returns no primitive, and the conversion
  throws a \<^verbatim>\<open>TypeError\<close>.
\<close>

fun json_ToString :: "json \<Rightarrow> jserror + jsstring"
  and json_join :: "json list \<Rightarrow> jserror + jsstring" where
  "json_ToString JNull = Inr (js ''null'')"
| "json_ToString (JBool b) = Inr (if b then js ''true'' else js ''false'')"
| "json_ToString (JNum n) = Inr (Number_toString n)"
| "json_ToString (JStr s) = Inr s"
| "json_ToString (JArr xs) = json_join xs"
| "json_ToString (JObj kvs) =
     (if js ''toString'' \<in> fst ` set kvs then Inl TypeError else Inr (js ''[object Object]''))"
| "json_join [] = Inr []"
| "json_join (x # xs) =
     (case (case x of JNull \<Rightarrow> Inr [] | _ \<Rightarrow> json_ToString x) of
        Inl e \<Rightarrow> Inl e
      | Inr s \<Rightarrow>
          (if xs = [] then Inr s
           else (case json_join xs of Inl e \<Rightarrow> Inl e | Inr r \<Rightarrow> Inr (s @ js '','' @ r))))"

text \<open>
  \<^verbatim>\<open>new Date(value)\<close> for what a property read of a JSON value gives: a JSON value, or
  \<^verbatim>\<open>undefined\<close> (\<open>None\<close>).
\<close>

definition Date_new :: "runtime \<Rightarrow> json option \<Rightarrow> jserror + date" where
  "Date_new rt v =
     (case v of
        None \<Rightarrow> Inr InvalidDate
      | Some JNull \<Rightarrow> Inr (Date 0)
      | Some (JBool b) \<Rightarrow> Inr (Date (if b then 1 else 0))
      | Some (JNum n) \<Rightarrow> Inr (TimeClip n)
      | Some (JStr s) \<Rightarrow> Inr (Date_parse rt s)
      | Some w \<Rightarrow> (case json_ToString w of Inl e \<Rightarrow> Inl e | Inr s \<Rightarrow> Inr (Date_parse rt s)))"

text \<open>
  Reading a property of a JSON value, for a name such as \<^verbatim>\<open>createdAt\<close> that is no
  array index and that no prototype defines: \<^verbatim>\<open>null\<close> has no properties and the read
  throws, an object gives its own property or \<^verbatim>\<open>undefined\<close>, everything else gives
  \<^verbatim>\<open>undefined\<close>.
\<close>

definition json_get :: "json \<Rightarrow> jsstring \<Rightarrow> jserror + json option" where
  "json_get v k =
     (case v of
        JNull \<Rightarrow> Inl TypeError
      | JObj kvs \<Rightarrow> Inr (map_of kvs k)
      | _ \<Rightarrow> Inr None)"

definition truthy :: "json option \<Rightarrow> bool" where
  "truthy v =
     (case v of
        None \<Rightarrow> False
      | Some JNull \<Rightarrow> False
      | Some (JBool b) \<Rightarrow> b
      | Some (JNum n) \<Rightarrow> n \<noteq> 0
      | Some (JStr s) \<Rightarrow> s \<noteq> []
      | Some _ \<Rightarrow> True)"

text \<open>
  The own enumerable properties that an object spread \<^verbatim>\<open>{...v}\<close> copies: those of an
  object, the indexed elements of an array, the indexed characters of a string, and
  nothing for \<^verbatim>\<open>null\<close>, a boolean or a number.
\<close>

definition json_spread :: "json \<Rightarrow> (jsstring \<times> json) list" where
  "json_spread v =
     (case v of
        JObj kvs \<Rightarrow> kvs
      | JArr xs \<Rightarrow> zip (map nat_digits [0 ..< length xs]) xs
      | JStr s \<Rightarrow> zip (map nat_digits [0 ..< length s]) (map (\<lambda>c. JStr [c]) s)
      | _ \<Rightarrow> [])"

subsection \<open>Records in memory\<close>

text \<open>
  What the load effect builds is an object whose properties hold JSON values, \<^verbatim>\<open>Date\<close>
  objects or \<^verbatim>\<open>undefined\<close>: the callback's parameter has type \<^verbatim>\<open>any\<close> and nothing
  checks the shape. The state of the hook is a list of such objects.
\<close>

datatype propval = JSON json | DateObj date | Undefined

type_synonym object = "(jsstring \<times> propval) list"

definition obj_get :: "object \<Rightarrow> jsstring \<Rightarrow> propval" where
  "obj_get obj k = (case map_of obj k of None \<Rightarrow> Undefined | Some v \<Rightarrow> v)"

text \<open>Writing a property in an object literal: in place when the key is there, else at the end.\<close>

fun set_prop :: "object \<Rightarrow> jsstring \<Rightarrow> propval \<Rightarrow> object" where
  "set_prop [] k v = [(k, v)]"
| "set_prop ((k', v') # rest) k v =
     (if k' = k then (k, v) # rest else (k', v') # set_prop rest k v)"

text \<open>The object that \<^verbatim>\<open>addTodo\<close> builds for a record, with its six properties in order.\<close>

definition Todo_obj :: "Todo \<Rightarrow> object" where
  "Todo_obj todo =
     [(js ''id'', JSON (JStr (id' todo))),
      (js ''text'', JSON (JStr (text' todo))),
      (js ''completed'', JSON (JBool (completed todo))),
      (js ''createdAt'', DateObj (createdAt todo)),
      (js ''dueDate'', (case dueDate todo of None \<Rightarrow> Undefined | Some d \<Rightarrow> DateObj d)),
      (js ''category'', (case category todo of None \<Rightarrow> Undefined | Some c \<Rightarrow> JSON (JStr c)))]"

text \<open>
  Reading an object through the interface \<^verbatim>\<open>Todo\<close>: the record it is, when every property
  has the type the interface declares, and \<open>None\<close> when one has not.
\<close>

definition asTodo :: "object \<Rightarrow> Todo option" where
  "asTodo obj =
     (case (obj_get obj (js ''id''), obj_get obj (js ''text''),
            obj_get obj (js ''completed''), obj_get obj (js ''createdAt'')) of
        (JSON (JStr i), JSON (JStr t), JSON (JBool c), DateObj d) \<Rightarrow>
          (case (case obj_get obj (js ''dueDate'') of
                   Undefined \<Rightarrow> Some None | DateObj dd \<Rightarrow> Some (Some dd) | _ \<Rightarrow> None) of
             None \<Rightarrow> None
           | Some due \<Rightarrow>
               (case (case obj_get obj (js ''category'') of
                        Undefined \<Rightarrow> Some None | JSON (JStr s) \<Rightarrow> Some (Some s) | _ \<Rightarrow> None) of
                  None \<Rightarrow> None
                | Some cat \<Rightarrow>
                    Some \<lparr>id' = i, text' = t, completed = c, createdAt = d,
                          dueDate = due, category = cat\<rparr>))
      | _ \<Rightarrow> None)"

subsection \<open>Serialising\<close>

text \<open>
  What \<^verbatim>\<open>JSON.stringify\<close> makes of a property value: a \<^verbatim>\<open>Date\<close> goes through its
  \<^verbatim>\<open>toJSON\<close>, the ISO string of a valid date and \<^verbatim>\<open>null\<close> for an invalid one; a
  property that is \<^verbatim>\<open>undefined\<close> is left out.
\<close>

definition toJSON_field :: "runtime \<Rightarrow> propval \<Rightarrow> json option" where
  "toJSON_field rt v =
     (case v of
        JSON j \<Rightarrow> Some j
      | DateObj (Date t) \<Rightarrow> Some (JStr (Date_toISOString rt t))
      | DateObj InvalidDate \<Rightarrow> Some JNull
      | Undefined \<Rightarrow> None)"

fun toJSON_props :: "runtime \<Rightarrow> object \<Rightarrow> (jsstring \<times> json) list" where
  "toJSON_props rt [] = []"
| "toJSON_props rt ((k, v) # rest) =
     (case toJSON_field rt v of
        None \<Rightarrow> toJSON_props rt rest
      | Some j \<Rightarrow> (k, j) # toJSON_props rt rest)"

definition toJSON :: "runtime \<Rightarrow> object list \<Rightarrow> json" where
  "toJSON rt objs = JArr (map (\<lambda>obj. JObj (toJSON_props rt obj)) objs)"

definition JSON_stringify :: "runtime \<Rightarrow> object list \<Rightarrow> jsstring" where
  "JSON_stringify rt objs = JSON_text rt (toJSON rt objs)"

subsection \<open>The load effect\<close>

text \<open>
  The callback of \<^verbatim>\<open>.map\<close>:
  \<^verbatim>\<open>{...todo, createdAt: new Date(todo.createdAt), dueDate: todo.dueDate ? new Date(todo.dueDate) : undefined}\<close>.
  \<open>Inl\<close> is the exception it throws.
\<close>

definition parseTodo :: "runtime \<Rightarrow> json \<Rightarrow> jserror + object" where
  "parseTodo rt todo =
     (case json_get todo (js ''createdAt'') of
        Inl e \<Rightarrow> Inl e
      | Inr c \<Rightarrow>
          (case Date_new rt c of
             Inl e \<Rightarrow> Inl e
           | Inr created \<Rightarrow>
               (case json_get todo (js ''dueDate'') of
                  Inl e \<Rightarrow> Inl e
                | Inr u \<Rightarrow>
                    (case (if truthy u
                           then (case Date_new rt u of Inl e \<Rightarrow> Inl e | Inr d \<Rightarrow> Inr (DateObj d))
                           else Inr Undefined) of
                       Inl e \<Rightarrow> Inl e
                     | Inr due \<Rightarrow>
                         Inr (set_prop
                                (set_prop (map (\<lambda>(k, v). (k, JSON v)) (json_spread todo))
                                   (js ''createdAt'') (DateObj created))
                                (js ''dueDate'') due)))))"

text \<open>\<^verbatim>\<open>Array.prototype.map\<close> with that callback: the first exception ends it.\<close>

fun mapTodos :: "runtime \<Rightarrow> json list \<Rightarrow> jserror + object list" where
  "mapTodos rt [] = Inr []"
| "mapTodos rt (x # xs) =
     (case parseTodo rt x of
        Inl e \<Rightarrow> Inl e
      | Inr obj \<Rightarrow> (case mapTodos rt xs of Inl e \<Rightarrow> Inl e | Inr objs \<Rightarrow> Inr (obj # objs)))"

text \<open>
  The body of the \<^verbatim>\<open>try\<close> block, given what \<^verbatim>\<open>localStorage.getItem\<close> returned (\<open>None\<close>
  for \<^verbatim>\<open>null\<close>). It throws (\<open>Inl\<close>), or calls \<^verbatim>\<open>setTodos\<close> with a new array (\<open>Some\<close>), or
  does nothing (\<open>None\<close>) when the string is \<^verbatim>\<open>null\<close> or empty. Calling \<^verbatim>\<open>.map\<close> on a
  parsed value that is no array throws a \<^verbatim>\<open>TypeError\<close>.
\<close>

definition loadBody :: "runtime \<Rightarrow> jsstring option \<Rightarrow> jserror + object list option" where
  "loadBody rt item =
     (case item of
        None \<Rightarrow> Inr None
      | Some s \<Rightarrow>
          (if s = [] then Inr None
           else (case JSON_parse rt s of
                   None \<Rightarrow> Inl SyntaxError
                 | Some (JArr xs) \<Rightarrow>
                     (case mapTodos rt xs of Inl e \<Rightarrow> Inl e | Inr parsedTodos \<Rightarrow> Inr (Some parsedTodos))
                 | Some _ \<Rightarrow> Inl TypeError)))"

subsection \<open>The hook\<close>

text \<open>
  The browser as the hook sees it: the string stored under the key (\<open>None\<close> when there is
  none), every value \<^verbatim>\<open>setItem\<close> has stored, oldest first, and what \<^verbatim>\<open>console.error\<close>
  has received.
\<close>

datatype report = Failed_to_load jserror | Failed_to_save jserror

record world =
  stored :: "jsstring option"
  written :: "jsstring list"
  console_errors :: "report list"

text \<open>
  The state of one mounted hook. The state variable \<^verbatim>\<open>todos\<close> is the field \<open>todos'\<close>.
\<close>

record hook =
  todos' :: "object list"
  isFirstRender :: bool
  isInitialized :: bool

text \<open>
  The load effect: the \<^verbatim>\<open>try\<close> block and its \<^verbatim>\<open>catch\<close>, which reports and goes on. The
  result is the world after it and the array passed to \<^verbatim>\<open>setTodos\<close>, if it was called.
\<close>

definition loadEffect :: "runtime \<Rightarrow> world \<Rightarrow> world \<times> object list option" where
  "loadEffect rt w =
     (case loadBody rt (stored w) of
        Inl e \<Rightarrow> (w\<lparr>console_errors := console_errors w @ [Failed_to_load e]\<rparr>, None)
      | Inr update \<Rightarrow> (w, update))"

text \<open>The save effect, with the guard of the first render and the \<^verbatim>\<open>try\<close>/\<^verbatim>\<open>catch\<close> around the write.\<close>

definition saveEffect :: "runtime \<Rightarrow> hook \<times> world \<Rightarrow> hook \<times> world" where
  "saveEffect rt hw =
     (let h = fst hw; w = snd hw in
      if isFirstRender h then
        (h\<lparr>isFirstRender := False, isInitialized := True\<rparr>, w)
      else
        (let text = JSON_stringify rt (todos' h) in
         if storage_accepts rt text then
           (h, w\<lparr>stored := Some text, written := written w @ [text]\<rparr>)
         else
           (h, w\<lparr>console_errors := console_errors w @ [Failed_to_save QuotaExceededError]\<rparr>)))"

text \<open>
  Mounting. React renders with the initial state, the empty array, and then runs the
  effects of that render in the order of their declaration: the load effect, then the save
  effect. If the load effect called \<^verbatim>\<open>setTodos\<close>, the component renders again with the new
  array; \<^verbatim>\<open>todos\<close> is then another array than before, so the save effect, which depends on
  \<^verbatim>\<open>[todos]\<close>, runs again, and the load effect, which depends on nothing, does not.
\<close>

definition mount :: "runtime \<Rightarrow> world \<Rightarrow> hook \<times> world" where
  "mount rt w0 =
     (let h0 = \<lparr>todos' = [], isFirstRender = True, isInitialized = False\<rparr>;
          (w1, update) = loadEffect rt w0;
          (h1, w2) = saveEffect rt (h0, w1)
      in case update of
           None \<Rightarrow> (h1, w2)
         | Some parsedTodos \<Rightarrow> saveEffect rt (h1\<lparr>todos' := parsedTodos\<rparr>, w2))"

text \<open>
  A mutation after mounting: \<^verbatim>\<open>setTodos(prev => f(prev))\<close> with an updater that returns a
  new array, the render that follows, and the save effect of that render.
\<close>

definition setTodos :: "runtime \<Rightarrow> (object list \<Rightarrow> object list) \<Rightarrow> hook \<times> world \<Rightarrow> hook \<times> world" where
  "setTodos rt f hw = saveEffect rt ((fst hw)\<lparr>todos' := f (todos' (fst hw))\<rparr>, snd hw)"

subsection \<open>A stand-in for the host\<close>

text \<open>
  The record of the test \<^verbatim>\<open>preserves all todo properties during save/load cycle\<close>,
  created at \<^verbatim>\<open>2025-01-01T12:00:00.000Z\<close> and due at \<^verbatim>\<open>2025-12-25T23:59:59.999Z\<close>, the
  JSON value of the collection that holds it, and the text of that value.
\<close>

definition originalTodo :: Todo where
  "originalTodo =
     \<lparr>id' = js ''test-id'', text' = js ''Complete todo with all properties'', completed = True,
      createdAt = Date 1735732800000, dueDate = Some (Date 1766707199999),
      category = Some (js ''work'')\<rparr>"

definition originalJSON :: json where
  "originalJSON =
     JArr [JObj [(js ''id'', JStr (js ''test-id'')),
                 (js ''text'', JStr (js ''Complete todo with all properties'')),
                 (js ''completed'', JBool True),
                 (js ''createdAt'', JStr (js ''2025-01-01T12:00:00.000Z'')),
                 (js ''dueDate'', JStr (js ''2025-12-25T23:59:59.999Z'')),
                 (js ''category'', JStr (js ''work''))]]"

definition originalText :: jsstring where
  "originalText = js (''[{\"id\":\"test-id\",\"text\":\"Complete todo with all properties\",'' @
     ''\"completed\":true,\"createdAt\":\"2025-01-01T12:00:00.000Z\",'' @
     ''\"dueDate\":\"2025-12-25T23:59:59.999Z\",\"category\":\"work\"}]'')"

text \<open>
  A host that knows a few texts, as the mocked \<^verbatim>\<open>localStorage\<close> of the test suite knows
  the values a test gives it: the text above, \<^verbatim>\<open>[{}]\<close>, \<^verbatim>\<open>[{"createdAt":null}]\<close> and
  \<^verbatim>\<open>[]\<close>; every other text, \<^verbatim>\<open>invalid-json\<close> for one, does not parse. On the inputs
  that the theorems below give it, it answers as a JavaScript engine does.
\<close>

definition mockRuntime :: runtime where
  "mockRuntime =
     \<lparr>JSON_parse = (\<lambda>s. if s = originalText then Some originalJSON
                          else if s = js ''[{}]'' then Some (JArr [JObj []])
                          else if s = js ''[{\"createdAt\":null}]''
                            then Some (JArr [JObj [(js ''createdAt'', JNull)]])
                          else if s = js ''[]'' then Some (JArr [])
                          else None),
      JSON_text = (\<lambda>j. if j = originalJSON then originalText
                         else if j = JArr [JObj []] then js ''[{}]''
                         else if j = JArr [JObj [(js ''createdAt'', JNull)]]
                           then js ''[{\"createdAt\":null}]''
                         else js ''[]''),
      Date_parse = (\<lambda>s. if s = js ''2025-01-01T12:00:00.000Z'' then Date 1735732800000
                          else if s = js ''2025-12-25T23:59:59.999Z'' then Date 1766707199999
                          else InvalidDate),
      Date_toISOString = (\<lambda>t. if t = 1735732800000 then js ''2025-01-01T12:00:00.000Z''
                                else if t = 1766707199999 then js ''2025-12-25T23:59:59.999Z''
                                else js ''1970-01-01T00:00:00.000Z''),
      storage_accepts = (\<lambda>s. True)\<rparr>"

section \<open>Properties of the time utility\<close>

text \<open>
  C7. For a due date whose end of day is inside the range of \<^verbatim>\<open>Date\<close>, and every clock
  reading \<open>now\<close>, \<open>calculateTimeRemaining\<close> returns a result. Its deadline is the instant
  whose local time lies on the local calendar day of the due date at 23:59:59.999; the
  result is overdue exactly when deadline minus now is negative; and the absolute
  difference is decomposed as total minutes = floor of the difference over 60000,
  days = floor of total minutes over 1440, hours = floor of (total minutes mod 1440) over
  60, minutes = total minutes mod 60.
\<close>

theorem calculateTimeRemaining_decomposition:
  assumes "\<bar>UTC tza (MakeDate (Day (LocalTime tza due)) (MakeTime 23 59 59 999))\<bar> \<le> 8640000000000000"
  shows "\<exists>r deadline localDeadline.
           calculateTimeRemaining tza now (Date due) = Some r \<and>
           deadline = UTC tza localDeadline \<and>
           Day localDeadline = Day (LocalTime tza due) \<and>
           TimeWithinDay localDeadline = 23 * 3600000 + 59 * 60000 + 59 * 1000 + 999 \<and>
           isOverdue r = (deadline - now < 0) \<and>
           totalMinutes r = \<bar>deadline - now\<bar> div 60000 \<and>
           days r = totalMinutes r div 1440 \<and>
           hours r = (totalMinutes r mod 1440) div 60 \<and>
           minutes r = totalMinutes r mod 60"
proof -
  define localDeadline where
    "localDeadline = MakeDate (Day (LocalTime tza due)) (MakeTime 23 59 59 999)"
  define deadline where "deadline = UTC tza localDeadline"
  have t: "MakeTime 23 59 59 999 = 86399999"
    by (simp add: MakeTime_def)
  have d: "Day localDeadline = Day (LocalTime tza due)"
    by (simp add: localDeadline_def t MakeDate_def Day_def msPerDay_def)
  have w: "TimeWithinDay localDeadline = 23 * 3600000 + 59 * 60000 + 59 * 1000 + 999"
    by (simp add: localDeadline_def t MakeDate_def TimeWithinDay_def msPerDay_def)
  have s: "setHours tza 23 59 59 999 (Date due) = Date deadline"
    using assms by (simp add: setHours_def Let_def TimeClip_def deadline_def localDeadline_def)
  define r where
    "r = \<lparr>days = (\<bar>deadline - now\<bar> div 60000) div 1440,
          hours = ((\<bar>deadline - now\<bar> div 60000) mod 1440) div 60,
          minutes = (\<bar>deadline - now\<bar> div 60000) mod 60,
          isOverdue = (deadline - now < 0),
          totalMinutes = \<bar>deadline - now\<bar> div 60000\<rparr>"
  have c: "calculateTimeRemaining tza now (Date due) = Some r"
    by (simp add: calculateTimeRemaining_def s Let_def r_def)
  have "isOverdue r = (deadline - now < 0) \<and>
        totalMinutes r = \<bar>deadline - now\<bar> div 60000 \<and>
        days r = totalMinutes r div 1440 \<and>
        hours r = (totalMinutes r mod 1440) div 60 \<and>
        minutes r = totalMinutes r mod 60"
    by (simp add: r_def)
  with c d w deadline_def show ?thesis
    by blast
qed

theorem calculateTimeRemaining_decomposition_witness:
  "\<bar>UTC (\<lambda>t u. 0) (MakeDate (Day (LocalTime (\<lambda>t u. 0) 1735689600000)) (MakeTime 23 59 59 999))\<bar>
     \<le> 8640000000000000 \<and>
   calculateTimeRemaining (\<lambda>t u. 0) 1735732800000 (Date 1735689600000) =
     Some \<lparr>days = 0, hours = 11, minutes = 59, isOverdue = False, totalMinutes = 719\<rparr> \<and>
   (\<exists>r deadline localDeadline.
      calculateTimeRemaining (\<lambda>t u. 0) 1735732800000 (Date 1735689600000) = Some r \<and>
      deadline = UTC (\<lambda>t u. 0) localDeadline \<and>
      Day localDeadline = Day (LocalTime (\<lambda>t u. 0) 1735689600000) \<and>
      TimeWithinDay localDeadline = 23 * 3600000 + 59 * 60000 + 59 * 1000 + 999 \<and>
      isOverdue r = (deadline - 1735732800000 < 0) \<and>
      totalMinutes r = \<bar>deadline - 1735732800000\<bar> div 60000 \<and>
      days r = totalMinutes r div 1440 \<and>
      hours r = (totalMinutes r mod 1440) div 60 \<and>
      minutes r = totalMinutes r mod 60)"
proof -
  have h: "\<bar>UTC (\<lambda>t u. 0) (MakeDate (Day (LocalTime (\<lambda>t u. 0) 1735689600000)) (MakeTime 23 59 59 999))\<bar>
             \<le> 8640000000000000"
    by (simp add: UTC_def MakeDate_def Day_def LocalTime_def MakeTime_def msPerDay_def)
  have v: "calculateTimeRemaining (\<lambda>t u. 0) 1735732800000 (Date 1735689600000) =
             Some \<lparr>days = 0, hours = 11, minutes = 59, isOverdue = False, totalMinutes = 719\<rparr>"
    by (simp add: calculateTimeRemaining_def setHours_def TimeClip_def UTC_def MakeDate_def
        Day_def LocalTime_def MakeTime_def msPerDay_def Let_def)
  from h v calculateTimeRemaining_decomposition [OF h, of 1735732800000] show ?thesis
    by blast
qed

text \<open>
  C5, as the specification words it, fails: the day tier of a duration that is not overdue
  is not the mirror image \<open>{d}d remaining\<close> of \<open>{d}d overdue\<close>. For 2 days 5 hours 30
  minutes remaining the mirrored rule gives \<open>2d remaining\<close> and the code gives
  \<open>2d 5h remaining\<close>.
\<close>

theorem format_mirror_counterexample:
  "format_spec \<lparr>days = 2, hours = 5, minutes = 30, isOverdue = False, totalMinutes = 2870\<rparr>
     = js ''2d remaining'' \<and>
   formatTimeRemaining \<lparr>days = 2, hours = 5, minutes = 30, isOverdue = False, totalMinutes = 2870\<rparr>
     \<noteq> format_spec \<lparr>days = 2, hours = 5, minutes = 30, isOverdue = False, totalMinutes = 2870\<rparr>"
  by (simp add: format_spec_def formatTimeRemaining_def Number_toString_def nat_digits.simps
      digit_def js_def)

text \<open>
  C5, amended. \<open>formatTimeRemaining\<close> chooses exactly one of three tiers, most significant
  first. Overdue: \<open>{d}d overdue\<close> when days are positive, else \<open>{h}h {m}m overdue\<close> when hours
  are positive, else \<open>{m}m overdue\<close>. Not overdue: \<open>{d}d {h}h remaining\<close> when days are
  positive (the day tier also reports the hours), else \<open>{h}h {m}m remaining\<close> when hours are
  positive, else \<open>{m}m remaining\<close>. In particular 2 days 5 hours 30 minutes remaining is
  \<open>2d 5h remaining\<close> and 45 minutes overdue is \<open>45m overdue\<close>.
\<close>

theorem formatTimeRemaining_tiers:
  "(isOverdue r \<and> days r > 0 \<longrightarrow>
      formatTimeRemaining r = Number_toString (days r) @ js ''d overdue'') \<and>
   (isOverdue r \<and> \<not> days r > 0 \<and> hours r > 0 \<longrightarrow>
      formatTimeRemaining r =
        Number_toString (hours r) @ js ''h '' @ Number_toString (minutes r) @ js ''m overdue'') \<and>
   (isOverdue r \<and> \<not> days r > 0 \<and> \<not> hours r > 0 \<longrightarrow>
      formatTimeRemaining r = Number_toString (minutes r) @ js ''m overdue'') \<and>
   (\<not> isOverdue r \<and> days r > 0 \<longrightarrow>
      formatTimeRemaining r =
        Number_toString (days r) @ js ''d '' @ Number_toString (hours r) @ js ''h remaining'') \<and>
   (\<not> isOverdue r \<and> \<not> days r > 0 \<and> hours r > 0 \<longrightarrow>
      formatTimeRemaining r =
        Number_toString (hours r) @ js ''h '' @ Number_toString (minutes r) @ js ''m remaining'') \<and>
   (\<not> isOverdue r \<and> \<not> days r > 0 \<and> \<not> hours r > 0 \<longrightarrow>
      formatTimeRemaining r = Number_toString (minutes r) @ js ''m remaining'') \<and>
   formatTimeRemaining \<lparr>days = 2, hours = 5, minutes = 30, isOverdue = False, totalMinutes = tm\<rparr>
     = js ''2d 5h remaining'' \<and>
   formatTimeRemaining \<lparr>days = 0, hours = 0, minutes = 45, isOverdue = True, totalMinutes = tm'\<rparr>
     = js ''45m overdue''"
proof -
  have e1: "formatTimeRemaining \<lparr>days = 2, hours = 5, minutes = 30, isOverdue = False, totalMinutes = tm\<rparr>
              = js ''2d 5h remaining''"
    by (simp add: formatTimeRemaining_def Number_toString_def nat_digits.simps digit_def js_def)
  have e2: "formatTimeRemaining \<lparr>days = 0, hours = 0, minutes = 45, isOverdue = True, totalMinutes = tm'\<rparr>
              = js ''45m overdue''"
    by (simp add: formatTimeRemaining_def Number_toString_def nat_digits.simps digit_def js_def)
  show ?thesis
    using e1 e2 by (simp add: formatTimeRemaining_def)
qed

theorem formatTimeRemaining_tiers_witness:
  "isOverdue \<lparr>days = 1, hours = 2, minutes = 30, isOverdue = True, totalMinutes = 1590\<rparr> \<and>
   days \<lparr>days = 1, hours = 2, minutes = 30, isOverdue = True, totalMinutes = 1590\<rparr> > 0 \<and>
   formatTimeRemaining \<lparr>days = 1, hours = 2, minutes = 30, isOverdue = True, totalMinutes = 1590\<rparr>
     = js ''1d overdue''"
  using formatTimeRemaining_tiers
    [of "\<lparr>days = 1, hours = 2, minutes = 30, isOverdue = True, totalMinutes = 1590\<rparr>"]
  by (simp add: Number_toString_def nat_digits.simps digit_def js_def)

section \<open>Properties of the store updates\<close>

text \<open>
  C1, as stated, fails: \<open>addTodo\<close> does not look at its text. With the text of three
  spaces, whose trimmed form is empty, the empty collection becomes a collection of one
  record.
\<close>

theorem addTodo_blank_counterexample:
  "trim (js ''   '') = [] \<and>
   addTodo (js ''k3x9'') 1735732800000 (js ''   '') None None [] \<noteq> [] \<and>
   length (addTodo (js ''k3x9'') 1735732800000 (js ''   '') None None []) = 1"
  by (simp add: trim_def js_def isWhiteSpace_def addTodo_def)

text \<open>
  C1, amended. For every collection and every text whose trimmed form is empty, \<open>addTodo\<close>
  is not a no-op: it makes no check and puts a new record carrying exactly that text in
  front of the collection, which is otherwise unchanged. Empty text is kept out by the
  input form: for such a text \<open>handleSubmit\<close> calls nothing and leaves the form and the
  collection as they are, and for every other text it calls \<open>addTodo\<close> once, with the
  trimmed text, and clears the form.
\<close>

theorem addTodo_blank_text:
  "(trim text = [] \<longrightarrow>
      addTodo generatedId now text due cat todos \<noteq> todos \<and>
      addTodo generatedId now text due cat todos =
        \<lparr>id' = generatedId, text' = text, completed = False,
         createdAt = Date now, dueDate = due, category = cat\<rparr> # todos \<and>
      handleSubmit Date_ymd (addTodo generatedId now)
        (\<lparr>text_input = text, dueDate_input = d, category_input = c\<rparr>, todos) =
        (\<lparr>text_input = text, dueDate_input = d, category_input = c\<rparr>, todos)) \<and>
   (trim text \<noteq> [] \<longrightarrow>
      (\<exists>parsedDueDate trimmedCategory.
         handleSubmit Date_ymd (addTodo generatedId now)
           (\<lparr>text_input = text, dueDate_input = d, category_input = c\<rparr>, todos) =
           (\<lparr>text_input = [], dueDate_input = [], category_input = []\<rparr>,
            addTodo generatedId now (trim text) parsedDueDate trimmedCategory todos)))"
proof (intro conjI impI)
  assume "trim text = []"
  then show "handleSubmit Date_ymd (addTodo generatedId now)
        (\<lparr>text_input = text, dueDate_input = d, category_input = c\<rparr>, todos) =
        (\<lparr>text_input = text, dueDate_input = d, category_input = c\<rparr>, todos)"
    by (simp add: handleSubmit_def)
next
  assume "trim text \<noteq> []"
  then show "\<exists>parsedDueDate trimmedCategory.
         handleSubmit Date_ymd (addTodo generatedId now)
           (\<lparr>text_input = text, dueDate_input = d, category_input = c\<rparr>, todos) =
           (\<lparr>text_input = [], dueDate_input = [], category_input = []\<rparr>,
            addTodo generatedId now (trim text) parsedDueDate trimmedCategory todos)"
    by (simp add: handleSubmit_def Let_def split del: if_split) blast
qed (simp_all add: addTodo_def)

theorem addTodo_blank_text_witness:
  "trim (js ''   '') = [] \<and>
   addTodo (js ''k3x9'') 1735732800000 (js ''   '') None None [mockTodo1] =
     \<lparr>id' = js ''k3x9'', text' = js ''   '', completed = False,
      createdAt = Date 1735732800000, dueDate = None, category = None\<rparr> # [mockTodo1] \<and>
   addTodo (js ''k3x9'') 1735732800000 (js ''   '') None None [mockTodo1] \<noteq> [mockTodo1] \<and>
   handleSubmit (\<lambda>y m d. InvalidDate) (addTodo (js ''k3x9'') 1735732800000)
     (\<lparr>text_input = js ''   '', dueDate_input = [], category_input = []\<rparr>, [mockTodo1]) =
     (\<lparr>text_input = js ''   '', dueDate_input = [], category_input = []\<rparr>, [mockTodo1]) \<and>
   trim (js '' New todo '') = js ''New todo'' \<and>
   js ''New todo'' \<noteq> [] \<and>
   (\<exists>parsedDueDate trimmedCategory.
      handleSubmit (\<lambda>y m d. InvalidDate) (addTodo (js ''k3x9'') 1735732800000)
        (\<lparr>text_input = js '' New todo '', dueDate_input = [], category_input = []\<rparr>, [mockTodo1]) =
        (\<lparr>text_input = [], dueDate_input = [], category_input = []\<rparr>,
         addTodo (js ''k3x9'') 1735732800000 (js ''New todo'') parsedDueDate trimmedCategory
           [mockTodo1])) \<and>
   handleSubmit (\<lambda>y m d. InvalidDate) (addTodo (js ''k3x9'') 1735732800000)
     (\<lparr>text_input = js '' New todo '', dueDate_input = [], category_input = []\<rparr>, [mockTodo1]) =
     (\<lparr>text_input = [], dueDate_input = [], category_input = []\<rparr>,
      [\<lparr>id' = js ''k3x9'', text' = js ''New todo'', completed = False,
        createdAt = Date 1735732800000, dueDate = None, category = None\<rparr>, mockTodo1])"
proof -
  have b: "trim (js ''   '') = []"
    by (simp add: trim_def js_def isWhiteSpace_def)
  have t: "trim (js '' New todo '') = js ''New todo''"
    by (simp add: trim_def js_def isWhiteSpace_def)
  have e: "trim [] = []"
    by (simp add: trim_def)
  have n: "js ''New todo'' \<noteq> []"
    by (simp add: js_def)
  have s: "handleSubmit (\<lambda>y m d. InvalidDate) (addTodo (js ''k3x9'') 1735732800000)
     (\<lparr>text_input = js '' New todo '', dueDate_input = [], category_input = []\<rparr>, [mockTodo1]) =
     (\<lparr>text_input = [], dueDate_input = [], category_input = []\<rparr>,
      [\<lparr>id' = js ''k3x9'', text' = js ''New todo'', completed = False,
        createdAt = Date 1735732800000, dueDate = None, category = None\<rparr>, mockTodo1])"
    by (simp add: handleSubmit_def t n e addTodo_def)
  have blank:
    "addTodo (js ''k3x9'') 1735732800000 (js ''   '') None None [mockTodo1] \<noteq> [mockTodo1] \<and>
     addTodo (js ''k3x9'') 1735732800000 (js ''   '') None None [mockTodo1] =
       \<lparr>id' = js ''k3x9'', text' = js ''   '', completed = False,
        createdAt = Date 1735732800000, dueDate = None, category = None\<rparr> # [mockTodo1] \<and>
     handleSubmit (\<lambda>y m d. InvalidDate) (addTodo (js ''k3x9'') 1735732800000)
       (\<lparr>text_input = js ''   '', dueDate_input = [], category_input = []\<rparr>, [mockTodo1]) =
       (\<lparr>text_input = js ''   '', dueDate_input = [], category_input = []\<rparr>, [mockTodo1])"
    using addTodo_blank_text [of "js ''   ''" "js ''k3x9''" 1735732800000 None None "[mockTodo1]"
      "\<lambda>y m d. InvalidDate" "[]" "[]"] b
    by blast
  have other:
    "\<exists>parsedDueDate trimmedCategory.
      handleSubmit (\<lambda>y m d. InvalidDate) (addTodo (js ''k3x9'') 1735732800000)
        (\<lparr>text_input = js '' New todo '', dueDate_input = [], category_input = []\<rparr>, [mockTodo1]) =
        (\<lparr>text_input = [], dueDate_input = [], category_input = []\<rparr>,
         addTodo (js ''k3x9'') 1735732800000 (js ''New todo'') parsedDueDate trimmedCategory
           [mockTodo1])"
    using addTodo_blank_text [of "js '' New todo ''" "js ''k3x9''" 1735732800000 None None
      "[mockTodo1]" "\<lambda>y m d. InvalidDate" "[]" "[]"] n
    unfolding t by blast
  from b t n s blank other show ?thesis
    by blast
qed

text \<open>
  C8. For every collection and every text (in particular every non-empty one), with any
  due date and category, after \<open>addTodo\<close> the new record is at index 0, not completed, with
  the id the generator returned for this call; every record that was there before is
  unchanged and one place further down, so relative order is kept. When the generated id
  is fresh for a collection with distinct ids, the ids stay distinct.
\<close>

theorem addTodo_head:
  "addTodo generatedId now text due cat todos ! 0 =
     \<lparr>id' = generatedId, text' = text, completed = False,
      createdAt = Date now, dueDate = due, category = cat\<rparr> \<and>
   length (addTodo generatedId now text due cat todos) = Suc (length todos) \<and>
   (\<forall>k < length todos. addTodo generatedId now text due cat todos ! Suc k = todos ! k) \<and>
   (distinct (map id' todos) \<and> generatedId \<notin> id' ` set todos \<longrightarrow>
      distinct (map id' (addTodo generatedId now text due cat todos)))"
  by (simp add: addTodo_def)

theorem addTodo_head_witness:
  "addTodo (js ''k3x9'') 5 (js ''New todo'') (Some (Date 7)) (Some (js ''work'')) [mockTodo1, mockTodo2] ! 0 =
     \<lparr>id' = js ''k3x9'', text' = js ''New todo'', completed = False,
      createdAt = Date 5, dueDate = Some (Date 7), category = Some (js ''work'')\<rparr> \<and>
   (0::nat) < length [mockTodo1, mockTodo2] \<and>
   addTodo (js ''k3x9'') 5 (js ''New todo'') (Some (Date 7)) (Some (js ''work'')) [mockTodo1, mockTodo2] ! Suc 0
     = mockTodo1 \<and>
   distinct (map id' [mockTodo1, mockTodo2]) \<and>
   js ''k3x9'' \<notin> id' ` set [mockTodo1, mockTodo2] \<and>
   distinct (map id' (addTodo (js ''k3x9'') 5 (js ''New todo'') (Some (Date 7)) (Some (js ''work''))
      [mockTodo1, mockTodo2]))"
proof -
  have d: "distinct (map id' [mockTodo1, mockTodo2]) \<and> js ''k3x9'' \<notin> id' ` set [mockTodo1, mockTodo2]"
    by (simp add: mockTodo1_def mockTodo2_def js_def)
  from d addTodo_head [of "js ''k3x9''" 5 "js ''New todo''" "Some (Date 7)" "Some (js ''work'')"
      "[mockTodo1, mockTodo2]"]
  show ?thesis by simp
qed

text \<open>
  C9. For every collection and every id, toggling the same id twice gives back the
  original collection, and one toggle with an id that no record has leaves the collection
  unchanged.
\<close>

theorem toggleTodo_twice:
  "toggleTodo i (toggleTodo i todos) = todos \<and>
   (i \<notin> id' ` set todos \<longrightarrow> toggleTodo i todos = todos)"
proof
  show "toggleTodo i (toggleTodo i todos) = todos"
    by (induction todos) (simp_all add: toggleTodo_def)
  show "i \<notin> id' ` set todos \<longrightarrow> toggleTodo i todos = todos"
    by (induction todos) (auto simp add: toggleTodo_def)
qed

theorem toggleTodo_twice_witness:
  "toggleTodo (js ''test-id-1'') [mockTodo1, mockTodo2] = [mockTodo1\<lparr>completed := True\<rparr>, mockTodo2] \<and>
   toggleTodo (js ''test-id-1'') (toggleTodo (js ''test-id-1'') [mockTodo1, mockTodo2])
     = [mockTodo1, mockTodo2] \<and>
   js ''unknown'' \<notin> id' ` set [mockTodo1, mockTodo2] \<and>
   toggleTodo (js ''unknown'') [mockTodo1, mockTodo2] = [mockTodo1, mockTodo2]"
proof -
  have a: "js ''unknown'' \<notin> id' ` set [mockTodo1, mockTodo2]"
    by (simp add: mockTodo1_def mockTodo2_def js_def)
  have b: "toggleTodo (js ''test-id-1'') [mockTodo1, mockTodo2]
             = [mockTodo1\<lparr>completed := True\<rparr>, mockTodo2]"
    by (simp add: toggleTodo_def mockTodo1_def mockTodo2_def js_def)
  from a b toggleTodo_twice [of "js ''test-id-1''" "[mockTodo1, mockTodo2]"]
    toggleTodo_twice [of "js ''unknown''" "[mockTodo1, mockTodo2]"]
  show ?thesis by simp
qed

text \<open>
  C10. For every collection and every id, \<open>deleteTodo\<close> returns exactly the records whose
  id differs from the given one, each as often as before and in their former relative
  order. No record with that id is left, however many there were, and when no record has
  the id the collection is unchanged.
\<close>

theorem deleteTodo_exact:
  "subseq (deleteTodo i todos) todos \<and>
   mset (deleteTodo i todos) = filter_mset (\<lambda>todo. id' todo \<noteq> i) (mset todos) \<and>
   (\<forall>todo \<in> set (deleteTodo i todos). id' todo \<noteq> i) \<and>
   (i \<notin> id' ` set todos \<longrightarrow> deleteTodo i todos = todos)"
  by (auto simp: deleteTodo_def filter_id_conv)

theorem deleteTodo_exact_witness:
  "deleteTodo (js ''test-id-1'') [mockTodo1, mockTodo2, mockTodo1\<lparr>completed := True\<rparr>] = [mockTodo2] \<and>
   subseq (deleteTodo (js ''test-id-1'') [mockTodo1, mockTodo2, mockTodo1\<lparr>completed := True\<rparr>])
     [mockTodo1, mockTodo2, mockTodo1\<lparr>completed := True\<rparr>] \<and>
   js ''unknown'' \<notin> id' ` set [mockTodo1, mockTodo2] \<and>
   deleteTodo (js ''unknown'') [mockTodo1, mockTodo2] = [mockTodo1, mockTodo2]"
proof -
  have a: "js ''unknown'' \<notin> id' ` set [mockTodo1, mockTodo2]"
    by (simp add: mockTodo1_def mockTodo2_def js_def)
  have b: "deleteTodo (js ''test-id-1'') [mockTodo1, mockTodo2, mockTodo1\<lparr>completed := True\<rparr>]
             = [mockTodo2]"
    by (simp add: deleteTodo_def mockTodo1_def mockTodo2_def js_def)
  from a b deleteTodo_exact [of "js ''test-id-1''" "[mockTodo1, mockTodo2, mockTodo1\<lparr>completed := True\<rparr>]"]
    deleteTodo_exact [of "js ''unknown''" "[mockTodo1, mockTodo2]"]
  show ?thesis by simp
qed

subsection \<open>Reordering\<close>

lemma Array_splice_mset:
  "mset (snd (Array_splice s d items xs)) + mset (fst (Array_splice s d items xs)) =
     mset xs + mset items"
proof -
  define len where "len = int (length xs)"
  define a where "a = (if s < 0 then max (len + s) 0 else min s len)"
  define n where "n = min (max d 0) (len - a)"
  have a0: "0 \<le> a" and n0: "0 \<le> n"
    by (auto simp: a_def n_def len_def)
  have split3: "xs = take (nat a) xs @ take (nat n) (drop (nat a) xs) @ drop (nat a + nat n) xs"
    by (metis append_take_drop_id drop_drop add.commute)
  have "mset xs = mset (take (nat a) xs) + mset (take (nat n) (drop (nat a) xs)) +
                  mset (drop (nat a + nat n) xs)"
    by (subst split3) (simp only: mset_append add.assoc)
  moreover have "nat (a + n) = nat a + nat n"
    using a0 n0 by (simp add: nat_add_distrib)
  ultimately show ?thesis
    by (simp add: Array_splice_def Let_def len_def[symmetric] a_def[symmetric] n_def[symmetric])
qed

lemma Array_splice_one_removed:
  "length (fst (Array_splice s 1 items xs)) \<le> 1"
  by (simp add: Array_splice_def Let_def min_def)

lemma Array_splice_none_removed:
  "fst (Array_splice s 1 items xs) = [] \<longleftrightarrow> int (length xs) \<le> s \<or> xs = []"
  by (cases xs) (auto simp: Array_splice_def Let_def max_def min_def)

lemma Array_splice_insert_only: "fst (Array_splice s 0 items xs) = []"
  by (simp add: Array_splice_def Let_def)

lemma reorderTodos_mset:
  "mset (reorderTodos i j todos) =
     mset (map Some todos) + (if int (length todos) \<le> i \<or> todos = [] then {#None#} else {#})"
proof -
  define result where "result = map Some todos"
  define rem where "rem = fst (Array_splice i 1 [] result)"
  define r1 where "r1 = snd (Array_splice i 1 [] result)"
  define removed where "removed = (case rem of [] \<Rightarrow> None | x # _ \<Rightarrow> x)"
  have r: "reorderTodos i j todos = snd (Array_splice j 0 [removed] r1)"
    by (simp add: reorderTodos_def Let_def split_beta result_def rem_def r1_def removed_def)
  have m1: "mset r1 + mset rem = mset result"
    using Array_splice_mset [of i 1 "[]" result] by (simp add: r1_def rem_def)
  have m2: "mset (snd (Array_splice j 0 [removed] r1)) = mset r1 + {#removed#}"
    using Array_splice_mset [of j 0 "[removed]" r1] by (simp add: Array_splice_insert_only)
  have e: "rem = [] \<longleftrightarrow> int (length todos) \<le> i \<or> todos = []"
    using Array_splice_none_removed [of i "[]" result] by (simp add: rem_def result_def)
  show ?thesis
  proof (cases rem)
    case Nil
    then have "removed = None" by (simp add: removed_def)
    with Nil m1 m2 e r show ?thesis by (simp add: result_def)
  next
    case (Cons x ys)
    have "length rem \<le> 1"
      using Array_splice_one_removed [of i "[]" result] by (simp add: rem_def)
    with Cons have "ys = []" by simp
    with Cons have "mset rem = {#removed#}" by (simp add: removed_def)
    with Cons m1 m2 e r show ?thesis by (simp add: result_def)
  qed
qed

lemma completedCount_Some: "completedCount (map Some xs) = Inr (length (filter completed xs))"
  by (induction xs) simp_all

lemma completedCount_None: "None \<in> set xs \<Longrightarrow> completedCount xs = Inl TypeError_in_render"
proof (induction xs)
  case Nil
  then show ?case by simp
next
  case (Cons x xs)
  then show ?case by (cases x) (auto split: sum.split)
qed

lemma take_one_drop: "s < length xs \<Longrightarrow> take (Suc 0) (drop s xs) = [xs ! s]"
  by (simp add: take_Suc_conv_app_nth)

lemma Array_splice_remove_one:
  fixes i :: int
  assumes "i < int (length xs)" and "xs \<noteq> []"
  shows "Array_splice i 1 [] xs =
           ([xs ! nat (if i < 0 then max (int (length xs) + i) 0 else i)],
            take (nat (if i < 0 then max (int (length xs) + i) 0 else i)) xs @
            drop (Suc (nat (if i < 0 then max (int (length xs) + i) 0 else i))) xs)"
proof -
  define s where "s = nat (if i < 0 then max (int (length xs) + i) 0 else i)"
  have len: "0 < length xs" using assms(2) by simp
  have sl: "s < length xs" using assms(1) len by (auto simp: s_def max_def)
  have a: "(if i < 0 then max (int (length xs) + i) 0 else min i (int (length xs))) = int s"
    using assms(1) len by (auto simp: s_def max_def min_def)
  have one: "min (max 1 0) (int (length xs) - int s) = (1::int)"
    using sl by simp
  have d1: "nat (int s + 1) = Suc s" by simp
  have n1: "nat 1 = Suc 0" by simp
  show ?thesis
    unfolding s_def [symmetric]
    unfolding Array_splice_def Let_def a one nat_int d1 n1 append_Nil
    using sl by (simp only: take_one_drop)
qed

lemma Array_splice_insert_one:
  fixes j :: int
  shows "Array_splice j 0 [x] xs =
           ([], take (nat (if j < 0 then max (int (length xs) + j) 0 else min j (int (length xs)))) xs @
                [x] @
                drop (nat (if j < 0 then max (int (length xs) + j) 0 else min j (int (length xs)))) xs)"
proof -
  define e where "e = (if j < 0 then max (int (length xs) + j) 0 else min j (int (length xs)))"
  have z: "min (max 0 0) (int (length xs) - e) = (0::int)"
    by (auto simp: e_def max_def min_def)
  show ?thesis
    unfolding Array_splice_def Let_def e_def [symmetric] z
    by simp
qed

lemma reorderTodos_move:
  fixes i j :: int and todos :: "Todo list"
  assumes i: "i < int (length todos)" and ne: "todos \<noteq> []"
  shows "reorderTodos i j todos =
           map Some
             (let s = nat (if i < 0 then max (int (length todos) + i) 0 else i);
                  rest = take s todos @ drop (Suc s) todos;
                  e = nat (if j < 0 then max (int (length rest) + j) 0 else min j (int (length rest)))
              in take e rest @ [todos ! s] @ drop e rest)"
proof -
  define s where "s = nat (if i < 0 then max (int (length todos) + i) 0 else i)"
  define rest where "rest = take s todos @ drop (Suc s) todos"
  have len: "0 < length todos" using ne by simp
  have sl: "s < length todos" using i len by (auto simp: s_def max_def)
  have i': "i < int (length (map Some todos))" and ne': "map Some todos \<noteq> []"
    using i ne by simp_all
  have sp0: "Array_splice i 1 [] (map Some todos) =
               ([map Some todos ! s], take s (map Some todos) @ drop (Suc s) (map Some todos))"
    using Array_splice_remove_one [OF i' ne'] unfolding length_map s_def [symmetric] .
  have sp1: "Array_splice i 1 [] (map Some todos) = ([Some (todos ! s)], map Some rest)"
    unfolding sp0 using sl by (simp add: rest_def take_map drop_map)
  show ?thesis
    unfolding reorderTodos_def Let_def sp1 split_conv list.case Array_splice_insert_one
    unfolding s_def [symmetric] rest_def [symmetric]
    by (simp add: take_map drop_map)
qed

lemma reorder_past_end_throws:
  assumes "int (length todos) \<le> i \<or> todos = []"
  shows "None \<in> set (reorderTodos i j todos) \<and>
         reorder_and_render i j todos = Inl TypeError_in_render"
proof -
  have "None \<in># mset (reorderTodos i j todos)"
    unfolding reorderTodos_mset using assms by auto
  then have n: "None \<in> set (reorderTodos i j todos)" by simp
  then show ?thesis
    by (simp add: reorder_and_render_def render_counts_def completedCount_None)
qed

text \<open>
  C3, as stated, fails: a call with an index out of range is not a no-op, and it can
  throw. With start index -1 (what \<^verbatim>\<open>findIndex\<close> returns for an id it does not find) the
  last record moves to the front. With a start index past the end nothing is removed, an
  \<^verbatim>\<open>undefined\<close> entry is inserted, and the render that follows throws.
\<close>

theorem reorderTodos_out_of_range_counterexample:
  "\<not> (0 \<le> (-1::int)) \<and>
   reorder_and_render (-1) 0 [mockTodo1, mockTodo2] = Inr ([Some mockTodo2, Some mockTodo1], 0, 2) \<and>
   [Some mockTodo2, Some mockTodo1] \<noteq> map Some [mockTodo1, mockTodo2] \<and>
   \<not> ((2::int) < int (length [mockTodo1, mockTodo2])) \<and>
   reorderTodos 2 0 [mockTodo1, mockTodo2] = [None, Some mockTodo1, Some mockTodo2] \<and>
   reorder_and_render 2 0 [mockTodo1, mockTodo2] = Inl TypeError_in_render"
  by (simp add: reorder_and_render_def render_counts_def totalCount_def reorderTodos_def
      Array_splice_def mockTodo1_def mockTodo2_def js_def)

text \<open>
  C3, amended. For every collection that is not empty and every pair of indices whose
  start index is below the length, whether or not an index is out of range, a call of
  \<open>reorderTodos\<close> does not throw, in the update or in the render that follows, and it is a
  move of one record with the indices resolved as \<^verbatim>\<open>splice\<close> resolves them, not a no-op.
  With \<open>s\<close> the start index, or the length plus the start index, at least 0, when it is
  negative, the record at \<open>s\<close> is taken out; it is put back at \<open>e\<close>, the end index cut down
  to the length of what is left, or that length plus the end index, at least 0, when it is
  negative. Every original record is still there, unchanged and exactly as often as
  before, and there is no other entry.
\<close>

theorem reorderTodos_out_of_range:
  fixes i j :: int and todos :: "Todo list"
  assumes "i < int (length todos)" and "todos \<noteq> []"
  shows "let s = nat (if i < 0 then max (int (length todos) + i) 0 else i);
             rest = take s todos @ drop (Suc s) todos;
             e = nat (if j < 0 then max (int (length rest) + j) 0 else min j (int (length rest)));
             moved = take e rest @ [todos ! s] @ drop e rest
         in reorder_and_render i j todos =
              Inr (map Some moved, length (filter completed moved), length todos) \<and>
            s < length todos \<and> e < length todos \<and>
            moved ! e = todos ! s \<and>
            mset moved = mset todos"
proof -
  define s where "s = nat (if i < 0 then max (int (length todos) + i) 0 else i)"
  define rest where "rest = take s todos @ drop (Suc s) todos"
  define e where "e = nat (if j < 0 then max (int (length rest) + j) 0 else min j (int (length rest)))"
  define moved where "moved = take e rest @ [todos ! s] @ drop e rest"
  have len: "0 < length todos" using assms(2) by simp
  have sl: "s < length todos" using assms(1) len by (auto simp: s_def max_def)
  have lr: "length rest = length todos - 1" using sl by (auto simp: rest_def)
  have el: "e \<le> length rest" by (auto simp: e_def max_def min_def)
  have el': "e < length todos" using el lr len by linarith
  have r: "reorderTodos i j todos = map Some moved"
    using reorderTodos_move [OF assms, of j]
    unfolding Let_def
    unfolding s_def [symmetric]
    unfolding rest_def [symmetric]
    unfolding e_def [symmetric]
    unfolding moved_def [symmetric] .
  have lm: "length moved = length todos"
  proof -
    have "length moved = Suc (length rest)"
      using el by (simp add: moved_def)
    with lr len show ?thesis by linarith
  qed
  have c: "reorder_and_render i j todos =
             Inr (map Some moved, length (filter completed moved), length todos)"
    by (simp add: reorder_and_render_def r render_counts_def completedCount_Some totalCount_def lm)
  have n: "moved ! e = todos ! s"
    using el by (simp add: moved_def nth_append)
  have "mset rest + {#todos ! s#} = mset todos"
  proof -
    have "todos = take s todos @ todos ! s # drop (Suc s) todos"
      using sl by (rule id_take_nth_drop)
    then have "mset todos = mset (take s todos @ todos ! s # drop (Suc s) todos)"
      by simp
    then show ?thesis by (simp add: rest_def)
  qed
  moreover have "mset (take e rest) + mset (drop e rest) = mset rest"
    by (metis append_take_drop_id mset_append)
  then have "mset moved = mset rest + {#todos ! s#}"
    by (simp add: moved_def)
  ultimately have m: "mset moved = mset todos"
    by simp
  show ?thesis
    unfolding Let_def
    unfolding s_def [symmetric]
    unfolding rest_def [symmetric]
    unfolding e_def [symmetric]
    unfolding moved_def [symmetric]
    using c sl el' n m by blast
qed

theorem reorderTodos_out_of_range_witness:
  "(-1::int) < int (length [mockTodo1, mockTodo2]) \<and> [mockTodo1, mockTodo2] \<noteq> [] \<and>
   \<not> (0 \<le> (-1::int)) \<and>
   reorder_and_render (-1) 0 [mockTodo1, mockTodo2] =
     Inr (map Some [mockTodo2, mockTodo1], length (filter completed [mockTodo2, mockTodo1]), 2) \<and>
   [mockTodo2, mockTodo1] \<noteq> [mockTodo1, mockTodo2] \<and>
   [mockTodo2, mockTodo1] ! 0 = [mockTodo1, mockTodo2] ! 1 \<and>
   mset [mockTodo2, mockTodo1] = mset [mockTodo1, mockTodo2]"
proof -
  have h1: "(-1::int) < int (length [mockTodo1, mockTodo2])" and h2: "[mockTodo1, mockTodo2] \<noteq> []"
    by simp_all
  have d: "[mockTodo2, mockTodo1] \<noteq> [mockTodo1, mockTodo2]"
    by (simp add: mockTodo1_def mockTodo2_def js_def)
  from reorderTodos_out_of_range [OF h1 h2, of 0] d show ?thesis
    by (simp add: Let_def)
qed

section \<open>Properties of persistence\<close>

subsection \<open>What mounting does\<close>

lemma mount_eq:
  "mount rt w =
     (case loadBody rt (stored w) of
        Inl e \<Rightarrow>
          (\<lparr>todos' = [], isFirstRender = False, isInitialized = True\<rparr>,
           w\<lparr>console_errors := console_errors w @ [Failed_to_load e]\<rparr>)
      | Inr None \<Rightarrow> (\<lparr>todos' = [], isFirstRender = False, isInitialized = True\<rparr>, w)
      | Inr (Some parsedTodos) \<Rightarrow>
          (\<lparr>todos' = parsedTodos, isFirstRender = False, isInitialized = True\<rparr>,
           if storage_accepts rt (JSON_stringify rt parsedTodos)
           then w\<lparr>stored := Some (JSON_stringify rt parsedTodos),
                  written := written w @ [JSON_stringify rt parsedTodos]\<rparr>
           else w\<lparr>console_errors := console_errors w @ [Failed_to_save QuotaExceededError]\<rparr>))"
  by (simp add: mount_def loadEffect_def saveEffect_def Let_def split: sum.split option.split)

lemma mount_without_update_silent:
  assumes "\<And>parsedTodos. loadBody rt (stored w) \<noteq> Inr (Some parsedTodos)"
  shows "written (snd (mount rt w)) = written w \<and> stored (snd (mount rt w)) = stored w"
  using assms by (simp add: mount_eq split: sum.split option.split)

lemma mount_without_data_silent:
  assumes "stored w = None"
  shows "written (snd (mount rt w)) = written w \<and> todos' (fst (mount rt w)) = []"
  using assms by (simp add: mount_eq loadBody_def)

lemma setTodos_after_mount_writes:
  assumes "storage_accepts rt (JSON_stringify rt (f (todos' (fst (mount rt w)))))"
  shows "written (snd (setTodos rt f (mount rt w))) =
           written (snd (mount rt w)) @ [JSON_stringify rt (f (todos' (fst (mount rt w))))]"
  using assms
  by (simp add: setTodos_def saveEffect_def Let_def mount_eq split: sum.split option.split)

text \<open>
  C2 does not hold of the code. Whenever the load effect installs stored records, which it
  does by calling \<^verbatim>\<open>setTodos\<close>, the render that follows runs the save effect a second
  time; the first-render guard was used up by the run after the first render, so that
  second run writes the collection just read back to storage (when the storage accepts
  it). Only a load that installs nothing causes no write.
\<close>

theorem mount_writes_back:
  assumes "loadBody rt (stored w) = Inr (Some parsedTodos)"
    and "storage_accepts rt (JSON_stringify rt parsedTodos)"
  shows "todos' (fst (mount rt w)) = parsedTodos \<and>
         written (snd (mount rt w)) = written w @ [JSON_stringify rt parsedTodos]"
  using assms by (simp add: mount_eq)

theorem mount_writes_back_witness:
  "loadBody mockRuntime (stored \<lparr>stored = Some originalText, written = [], console_errors = []\<rparr>)
     = Inr (Some [Todo_obj originalTodo]) \<and>
   storage_accepts mockRuntime (JSON_stringify mockRuntime [Todo_obj originalTodo]) \<and>
   JSON_stringify mockRuntime [Todo_obj originalTodo] = originalText \<and>
   todos' (fst (mount mockRuntime \<lparr>stored = Some originalText, written = [], console_errors = []\<rparr>))
     = [Todo_obj originalTodo] \<and>
   written (snd (mount mockRuntime \<lparr>stored = Some originalText, written = [], console_errors = []\<rparr>))
     = [originalText]"
proof -
  have ne: "originalText \<noteq> []"
    by (simp add: originalText_def js_def)
  have p: "JSON_parse mockRuntime originalText = Some originalJSON"
    by (simp add: mockRuntime_def)
  have m: "mapTodos mockRuntime
             [JObj [(js ''id'', JStr (js ''test-id'')),
                    (js ''text'', JStr (js ''Complete todo with all properties'')),
                    (js ''completed'', JBool True),
                    (js ''createdAt'', JStr (js ''2025-01-01T12:00:00.000Z'')),
                    (js ''dueDate'', JStr (js ''2025-12-25T23:59:59.999Z'')),
                    (js ''category'', JStr (js ''work''))]]
           = Inr [Todo_obj originalTodo]"
    by (simp add: parseTodo_def json_get_def Date_new_def truthy_def json_spread_def
        Todo_obj_def originalTodo_def mockRuntime_def js_def)
  have l: "loadBody mockRuntime
             (stored \<lparr>stored = Some originalText, written = [], console_errors = []\<rparr>)
           = Inr (Some [Todo_obj originalTodo])"
    using m by (simp add: loadBody_def ne p originalJSON_def)
  have j: "toJSON mockRuntime [Todo_obj originalTodo] = originalJSON"
    by (simp add: toJSON_def Todo_obj_def originalTodo_def toJSON_field_def originalJSON_def
        mockRuntime_def)
  have s: "JSON_stringify mockRuntime [Todo_obj originalTodo] = originalText"
    unfolding JSON_stringify_def j by (simp add: mockRuntime_def)
  have a: "storage_accepts mockRuntime (JSON_stringify mockRuntime [Todo_obj originalTodo])"
    by (simp add: mockRuntime_def)
  from mount_writes_back [OF l a] l a s show ?thesis
    by simp
qed

subsection \<open>Malformed stored data\<close>






subsection \<open>Saving and loading again\<close>

lemma keys_neq:
  "js ''id'' \<noteq> js ''createdAt''" "js ''text'' \<noteq> js ''createdAt''"
  "js ''completed'' \<noteq> js ''createdAt''" "js ''dueDate'' \<noteq> js ''createdAt''"
  "js ''category'' \<noteq> js ''createdAt''" "js ''id'' \<noteq> js ''dueDate''"
  "js ''text'' \<noteq> js ''dueDate''" "js ''completed'' \<noteq> js ''dueDate''"
  "js ''createdAt'' \<noteq> js ''dueDate''" "js ''category'' \<noteq> js ''dueDate''"
  "js ''id'' \<noteq> js ''text''" "js ''id'' \<noteq> js ''completed''" "js ''id'' \<noteq> js ''category''"
  "js ''text'' \<noteq> js ''id''" "js ''text'' \<noteq> js ''completed''" "js ''text'' \<noteq> js ''category''"
  "js ''completed'' \<noteq> js ''id''" "js ''completed'' \<noteq> js ''text''"
  "js ''completed'' \<noteq> js ''category''" "js ''category'' \<noteq> js ''id''"
  "js ''category'' \<noteq> js ''text''" "js ''category'' \<noteq> js ''completed''"
  "js ''createdAt'' \<noteq> js ''id''" "js ''createdAt'' \<noteq> js ''text''"
  "js ''createdAt'' \<noteq> js ''completed''" "js ''createdAt'' \<noteq> js ''category''"
  "js ''dueDate'' \<noteq> js ''id''" "js ''dueDate'' \<noteq> js ''text''"
  "js ''dueDate'' \<noteq> js ''completed''" "js ''dueDate'' \<noteq> js ''category''"
  by (simp_all add: js_def)

lemma parseTodo_roundtrip:
  assumes c: "createdAt todo = Date ms" "Date_parse rt (Date_toISOString rt ms) = Date ms"
    and d: "dueDate todo = None \<or>
            (\<exists>t. dueDate todo = Some (Date t) \<and>
                 Date_parse rt (Date_toISOString rt t) = Date t \<and> Date_toISOString rt t \<noteq> [])"
  shows "\<exists>obj. parseTodo rt (JObj (toJSON_props rt (Todo_obj todo))) = Inr obj \<and>
               asTodo obj = Some todo"
proof -
  note defs = parseTodo_def Todo_obj_def toJSON_field_def json_get_def Date_new_def truthy_def
    json_spread_def asTodo_def obj_get_def keys_neq
  from d show ?thesis
  proof
    assume n: "dueDate todo = None"
    show ?thesis
      using c n by (cases "category todo") (simp_all add: defs)
  next
    assume "\<exists>t. dueDate todo = Some (Date t) \<and>
                Date_parse rt (Date_toISOString rt t) = Date t \<and> Date_toISOString rt t \<noteq> []"
    then obtain t where "dueDate todo = Some (Date t)"
      "Date_parse rt (Date_toISOString rt t) = Date t" "Date_toISOString rt t \<noteq> []"
      by blast
    then show ?thesis
      using c by (cases "category todo") (simp_all add: defs)
  qed
qed

lemma mapTodos_roundtrip:
  assumes "\<forall>todo \<in> set todos.
             (\<exists>ms. createdAt todo = Date ms \<and> Date_parse rt (Date_toISOString rt ms) = Date ms) \<and>
             (dueDate todo = None \<or>
              (\<exists>t. dueDate todo = Some (Date t) \<and>
                   Date_parse rt (Date_toISOString rt t) = Date t \<and> Date_toISOString rt t \<noteq> []))"
  shows "\<exists>loaded. mapTodos rt (map (\<lambda>obj. JObj (toJSON_props rt obj)) (map Todo_obj todos)) = Inr loaded \<and>
                  map asTodo loaded = map Some todos"
  using assms
proof (induction todos)
  case Nil
  then show ?case by simp
next
  case (Cons todo todos)
  then obtain loaded where
    l: "mapTodos rt (map (\<lambda>obj. JObj (toJSON_props rt obj)) (map Todo_obj todos)) = Inr loaded"
       "map asTodo loaded = map Some todos"
    by auto
  from Cons.prems obtain ms where
    "createdAt todo = Date ms" "Date_parse rt (Date_toISOString rt ms) = Date ms"
    by auto
  moreover from Cons.prems have
    "dueDate todo = None \<or>
     (\<exists>t. dueDate todo = Some (Date t) \<and>
          Date_parse rt (Date_toISOString rt t) = Date t \<and> Date_toISOString rt t \<noteq> [])"
    by simp
  ultimately obtain obj where
    "parseTodo rt (JObj (toJSON_props rt (Todo_obj todo))) = Inr obj" "asTodo obj = Some todo"
    using parseTodo_roundtrip by blast
  with l show ?case by simp
qed

text \<open>
  C6. Take a collection of records whose \<open>createdAt\<close> is a valid date and whose \<open>dueDate\<close>
  is a valid date or absent, held by a mounted hook past its first render, and a host
  that accepts the write, reads the written text back as the JSON value it stands for,
  and parses the ISO string of each of these dates back to the same millisecond. Then the
  save effect followed by mounting again on the storage it leaves yields objects that,
  read through the interface \<open>Todo\<close>, are the original records: every \<open>createdAt\<close> and every
  \<open>dueDate\<close> is a date object with the original time value, not a string.
\<close>

theorem save_load_roundtrip:
  assumes dates:
      "\<forall>todo \<in> set todos.
         (\<exists>ms. createdAt todo = Date ms \<and> Date_parse rt (Date_toISOString rt ms) = Date ms) \<and>
         (dueDate todo = None \<or>
          (\<exists>t. dueDate todo = Some (Date t) \<and>
               Date_parse rt (Date_toISOString rt t) = Date t \<and> Date_toISOString rt t \<noteq> []))"
    and host:
      "JSON_parse rt (JSON_text rt (toJSON rt (map Todo_obj todos))) =
         Some (toJSON rt (map Todo_obj todos))"
      "JSON_text rt (toJSON rt (map Todo_obj todos)) \<noteq> []"
      "storage_accepts rt (JSON_text rt (toJSON rt (map Todo_obj todos)))"
    and hook: "todos' h = map Todo_obj todos" "\<not> isFirstRender h"
  shows "stored (snd (saveEffect rt (h, w))) = Some (JSON_stringify rt (map Todo_obj todos)) \<and>
         map asTodo (todos' (fst (mount rt (snd (saveEffect rt (h, w)))))) = map Some todos"
proof -
  define w' where "w' = snd (saveEffect rt (h, w))"
  have s: "stored w' = Some (JSON_stringify rt (map Todo_obj todos))"
    using host(3) hook by (simp add: w'_def saveEffect_def Let_def JSON_stringify_def)
  obtain loaded where
    m: "mapTodos rt (map (\<lambda>obj. JObj (toJSON_props rt obj)) (map Todo_obj todos)) = Inr loaded"
    and a: "map asTodo loaded = map Some todos"
    using mapTodos_roundtrip [OF dates] by blast
  have "loadBody rt (stored w') = Inr (Some loaded)"
    using host(1,2) m by (simp add: s loadBody_def JSON_stringify_def) (simp add: toJSON_def)
  then have "todos' (fst (mount rt w')) = loaded"
    by (simp add: mount_eq)
  with s a show ?thesis
    by (simp add: w'_def)
qed

theorem save_load_roundtrip_witness:
  "createdAt originalTodo = Date 1735732800000 \<and>
   dueDate originalTodo = Some (Date 1766707199999) \<and>
   Date_parse mockRuntime (Date_toISOString mockRuntime 1735732800000) = Date 1735732800000 \<and>
   Date_parse mockRuntime (Date_toISOString mockRuntime 1766707199999) = Date 1766707199999 \<and>
   JSON_text mockRuntime (toJSON mockRuntime (map Todo_obj [originalTodo])) = originalText \<and>
   JSON_parse mockRuntime originalText = Some (toJSON mockRuntime (map Todo_obj [originalTodo])) \<and>
   stored (snd (saveEffect mockRuntime
      (\<lparr>todos' = map Todo_obj [originalTodo], isFirstRender = False, isInitialized = True\<rparr>,
       \<lparr>stored = None, written = [], console_errors = []\<rparr>))) = Some originalText \<and>
   map asTodo (todos' (fst (mount mockRuntime (snd (saveEffect mockRuntime
      (\<lparr>todos' = map Todo_obj [originalTodo], isFirstRender = False, isInitialized = True\<rparr>,
       \<lparr>stored = None, written = [], console_errors = []\<rparr>)))))) = [Some originalTodo]"
proof -
  define h where
    "h = \<lparr>todos' = map Todo_obj [originalTodo], isFirstRender = False, isInitialized = True\<rparr>"
  define w where "w = \<lparr>stored = None, written = [], console_errors = []\<rparr>"
  define j where "j = toJSON mockRuntime (map Todo_obj [originalTodo])"
  have c: "createdAt originalTodo = Date 1735732800000"
    and d: "dueDate originalTodo = Some (Date 1766707199999)"
    by (simp_all add: originalTodo_def)
  have p1: "Date_parse mockRuntime (Date_toISOString mockRuntime 1735732800000) = Date 1735732800000"
    and p2: "Date_parse mockRuntime (Date_toISOString mockRuntime 1766707199999) = Date 1766707199999"
    and ne: "Date_toISOString mockRuntime 1766707199999 \<noteq> []"
    by (simp_all add: mockRuntime_def js_def)
  have j: "j = originalJSON"
    by (simp add: j_def toJSON_def Todo_obj_def originalTodo_def toJSON_field_def originalJSON_def
        mockRuntime_def)
  have t: "JSON_text mockRuntime j = originalText"
    unfolding j by (simp add: mockRuntime_def)
  have r: "JSON_parse mockRuntime originalText = Some j"
    unfolding j by (simp add: mockRuntime_def)
  have n: "originalText \<noteq> []"
    by (simp add: originalText_def js_def)
  have dates: "\<forall>todo \<in> set [originalTodo].
         (\<exists>ms. createdAt todo = Date ms \<and>
               Date_parse mockRuntime (Date_toISOString mockRuntime ms) = Date ms) \<and>
         (dueDate todo = None \<or>
          (\<exists>t. dueDate todo = Some (Date t) \<and>
               Date_parse mockRuntime (Date_toISOString mockRuntime t) = Date t \<and>
               Date_toISOString mockRuntime t \<noteq> []))"
    using c d p1 p2 ne by simp
  have h1: "JSON_parse mockRuntime (JSON_text mockRuntime (toJSON mockRuntime (map Todo_obj [originalTodo])))
              = Some (toJSON mockRuntime (map Todo_obj [originalTodo]))"
    unfolding j_def [symmetric] t by (rule r)
  have h2: "JSON_text mockRuntime (toJSON mockRuntime (map Todo_obj [originalTodo])) \<noteq> []"
    unfolding j_def [symmetric] t by (rule n)
  have h3: "storage_accepts mockRuntime
              (JSON_text mockRuntime (toJSON mockRuntime (map Todo_obj [originalTodo])))"
    by (simp add: mockRuntime_def)
  have h4: "todos' h = map Todo_obj [originalTodo]" and h5: "\<not> isFirstRender h"
    by (simp_all add: h_def)
  have s: "JSON_stringify mockRuntime (map Todo_obj [originalTodo]) = originalText"
    unfolding JSON_stringify_def j_def [symmetric] by (rule t)
  from save_load_roundtrip [OF dates h1 h2 h3 h4 h5, of w]
  have "stored (snd (saveEffect mockRuntime (h, w))) = Some originalText \<and>
        map asTodo (todos' (fst (mount mockRuntime (snd (saveEffect mockRuntime (h, w))))))
          = [Some originalTodo]"
    unfolding s by simp
  moreover note c d p1 p2 t r
  ultimately show ?thesis
    unfolding h_def w_def j_def by blast
qed

end
